theory Spec2Isabelle
  imports Complex_Main "HOL-Library.Log_Nat"
begin

section \<open>Numbers of the Go program\<close>

subsection \<open>float64\<close>

text \<open>
  A \<open>float64\<close> is either a finite number, one of the two infinities or NaN. Finite
  values are taken as exact reals: overflow of a finite result to an infinity and the
  sign of zero are not represented (a zero divisor is \<open>+0\<close>, the only zero the program
  stores in \<open>StdDev\<close>), and a result is rounded only where the rounding decides a branch
  of the program, which is in the sum of the baseline counts of \<open>CalculateBehaviorScore\<close>
  (see \<open>nearest_double\<close>). What IEEE-754 arithmetic does with a zero divisor, with
  infinities and with NaN is written out, because \<open>DetectAnomaly\<close> divides by a standard
  deviation that can be zero and Go does not panic there.
\<close>

datatype float64 = Fin real | PInf | NInf | NaN

fun fneg :: "float64 \<Rightarrow> float64" where
  "fneg (Fin x) = Fin (- x)"
| "fneg PInf = NInf"
| "fneg NInf = PInf"
| "fneg NaN = NaN"

fun fadd :: "float64 \<Rightarrow> float64 \<Rightarrow> float64" where
  "fadd (Fin x) (Fin y) = Fin (x + y)"
| "fadd NaN b = NaN"
| "fadd a NaN = NaN"
| "fadd PInf NInf = NaN"
| "fadd NInf PInf = NaN"
| "fadd PInf b = PInf"
| "fadd a PInf = PInf"
| "fadd NInf b = NInf"
| "fadd a NInf = NInf"

definition fsub :: "float64 \<Rightarrow> float64 \<Rightarrow> float64" where
  "fsub a b = fadd a (fneg b)"

fun fmul :: "float64 \<Rightarrow> float64 \<Rightarrow> float64" where
  "fmul (Fin x) (Fin y) = Fin (x * y)"
| "fmul NaN b = NaN"
| "fmul a NaN = NaN"
| "fmul (Fin x) PInf = (if x = 0 then NaN else if 0 < x then PInf else NInf)"
| "fmul (Fin x) NInf = (if x = 0 then NaN else if 0 < x then NInf else PInf)"
| "fmul PInf (Fin y) = (if y = 0 then NaN else if 0 < y then PInf else NInf)"
| "fmul NInf (Fin y) = (if y = 0 then NaN else if 0 < y then NInf else PInf)"
| "fmul PInf PInf = PInf"
| "fmul PInf NInf = NInf"
| "fmul NInf PInf = NInf"
| "fmul NInf NInf = PInf"

fun fdiv :: "float64 \<Rightarrow> float64 \<Rightarrow> float64" where
  "fdiv (Fin x) (Fin y) =
     (if y \<noteq> 0 then Fin (x / y)
      else if 0 < x then PInf
      else if x < 0 then NInf
      else NaN)"
| "fdiv NaN b = NaN"
| "fdiv a NaN = NaN"
| "fdiv (Fin x) PInf = Fin 0"
| "fdiv (Fin x) NInf = Fin 0"
| "fdiv PInf (Fin y) = (if 0 \<le> y then PInf else NInf)"
| "fdiv NInf (Fin y) = (if 0 \<le> y then NInf else PInf)"
| "fdiv PInf PInf = NaN"
| "fdiv PInf NInf = NaN"
| "fdiv NInf PInf = NaN"
| "fdiv NInf NInf = NaN"

text \<open>Comparisons: every comparison with NaN is false, also \<open>NaN == NaN\<close>.\<close>

fun flt :: "float64 \<Rightarrow> float64 \<Rightarrow> bool" where
  "flt (Fin x) (Fin y) = (x < y)"
| "flt NaN b = False"
| "flt a NaN = False"
| "flt PInf b = False"
| "flt a NInf = False"
| "flt NInf b = True"
| "flt a PInf = True"

fun feq :: "float64 \<Rightarrow> float64 \<Rightarrow> bool" where
  "feq (Fin x) (Fin y) = (x = y)"
| "feq PInf PInf = True"
| "feq NInf NInf = True"
| "feq a b = False"

definition fgt :: "float64 \<Rightarrow> float64 \<Rightarrow> bool" where
  "fgt a b = flt b a"

definition fle :: "float64 \<Rightarrow> float64 \<Rightarrow> bool" where
  "fle a b = (flt a b \<or> feq a b)"

definition fge :: "float64 \<Rightarrow> float64 \<Rightarrow> bool" where
  "fge a b = fle b a"

text \<open>
  The built-in \<open>max\<close> and \<open>min\<close> of Go 1.21, which package \<open>baseline\<close> calls on
  \<open>float64\<close>: NaN if an argument is NaN.
\<close>

definition go_max :: "float64 \<Rightarrow> float64 \<Rightarrow> float64" where
  "go_max a b = (if a = NaN \<or> b = NaN then NaN else if flt a b then b else a)"

definition go_min :: "float64 \<Rightarrow> float64 \<Rightarrow> float64" where
  "go_min a b = (if a = NaN \<or> b = NaN then NaN else if flt b a then b else a)"

subsection \<open>int\<close>

text \<open>
  Go's \<open>int\<close> on a 64-bit platform: an integer of \<open>[-2^63, 2^63)\<close>. It is an \<open>int\<close> here,
  and \<open>wrap64\<close> is applied wherever a result can leave that range (\<open>SampleCount++\<close>,
  \<open>expected*3\<close>). A counter of the elements of a slice cannot: a slice has fewer than
  \<open>2^63\<close> elements.
\<close>

definition wrap64 :: "int \<Rightarrow> int" where
  "wrap64 i = (i + 2 ^ 63) mod 2 ^ 64 - 2 ^ 63"

definition float64_of_int :: "int \<Rightarrow> float64" where
  "float64_of_int i = Fin (of_int i)"

text \<open>
  The double nearest to an integer, as \<open>float64(i)\<close> and a sum of two doubles that hold
  integers choose it: the integer is cut to the 53 leading bits of its magnitude and
  rounded to the nearest such value, a tie to the one whose last kept bit is 0. An integer
  of magnitude up to \<open>2^53\<close> is its own nearest double.
\<close>

definition nearest_double :: "int \<Rightarrow> int" where
  "nearest_double n =
     (let m = \<bar>n\<bar>;
          u = 2 ^ nat (bitlen m - 53);
          q = m div u;
          r = m mod u;
          q1 = (if 2 * r < u then q else if u < 2 * r then q + 1
                else if even q then q else q + 1)
      in sgn n * (q1 * u))"

text \<open>A \<open>time.Time\<close> is an instant; \<open>time.Now()\<close> is an argument of the function that calls it.\<close>

type_synonym time = int

section \<open>Package baseline\<close>

text \<open>
  Field names shared by several structs carry the struct's initials; \<open>Min\<close> and \<open>Max\<close>
  are \<open>Min_s\<close> and \<open>Max_s\<close>. A \<open>*regexp.Regexp\<close> is the text it was compiled from.
\<close>

record BehaviorPattern =
  bp_Name :: string
  bp_Regex :: string
  bp_Category :: string
  NormalCount :: float64
  Threshold :: float64

record Stat =
  Mean :: float64
  StdDev :: float64
  Min_s :: float64
  Max_s :: float64
  SampleCount :: int

record Baseline =
  Name :: string
  CreatedAt :: time
  UpdatedAt :: time
  Patterns :: "BehaviorPattern list"
  Stats :: "string \<rightharpoonup> Stat"
  AnomalyThreshold :: float64

record Anomaly =
  a_Type :: string
  Description :: string
  Severity :: string
  Evidence :: string
  Confidence :: float64
  Timestamp :: time
  RiskLevel :: string

text \<open>
  The learner's map holds pointers to baselines. Each pointer in it was made by
  \<open>CreateBaseline\<close> and is stored under one name only, so the map is taken as a map from
  names to the baselines themselves; a nil pointer is \<open>None\<close>.
\<close>

record Learner =
  baselines :: "string \<rightharpoonup> Baseline"

definition NewLearner :: Learner where
  "NewLearner = \<lparr>baselines = Map.empty\<rparr>"

text \<open>\<open>CreateBaseline\<close> reads the clock twice; it returns the new baseline and the learner.\<close>

definition CreateBaseline :: "Learner \<Rightarrow> string \<Rightarrow> time \<Rightarrow> time \<Rightarrow> Baseline \<times> Learner" where
  "CreateBaseline l name now1 now2 =
     (let baseline = \<lparr>Name = name, CreatedAt = now1, UpdatedAt = now2, Patterns = [],
                       Stats = Map.empty, AnomalyThreshold = Fin 3\<rparr>
      in (baseline, l\<lparr>baselines := (baselines l)(name \<mapsto> baseline)\<rparr>))"

definition GetBaseline :: "Learner \<Rightarrow> string \<Rightarrow> Baseline option" where
  "GetBaseline l name = baselines l name"

text \<open>\<open>Stat{}\<close>, and the read of a map of Stats, which gives \<open>Stat{}\<close> for a missing key.\<close>

definition zero_Stat :: Stat where
  "zero_Stat = \<lparr>Mean = Fin 0, StdDev = Fin 0, Min_s = Fin 0, Max_s = Fin 0, SampleCount = 0\<rparr>"

definition read_Stat :: "(string \<rightharpoonup> Stat) \<Rightarrow> string \<Rightarrow> Stat" where
  "read_Stat m key = (case m key of None \<Rightarrow> zero_Stat | Some s \<Rightarrow> s)"

definition stat_key :: "string \<Rightarrow> string \<Rightarrow> string" where
  "stat_key category pattern = category @ '':'' @ pattern"

definition RecordObservation :: "Baseline \<Rightarrow> string \<Rightarrow> string \<Rightarrow> int \<Rightarrow> Baseline" where
  "RecordObservation b category pattern count =
     (let key = stat_key category pattern;
          b1 = (if Stats b key = None then b\<lparr>Stats := (Stats b)(key \<mapsto> zero_Stat)\<rparr> else b);
          stat = read_Stat (Stats b1) key;
          stat1 = stat\<lparr>SampleCount := wrap64 (SampleCount stat + 1)\<rparr>
      in b1\<lparr>Stats := (Stats b1)(key \<mapsto> stat1)\<rparr>)"

text \<open>
  The method has a pointer receiver and reads \<open>b.Stats\<close> at once: on the nil pointer that
  \<open>GetBaseline\<close> gives for an unknown name it panics.
\<close>

datatype panic = NilPointerDereference

definition RecordObservation_ptr ::
  "Baseline option \<Rightarrow> string \<Rightarrow> string \<Rightarrow> int \<Rightarrow> panic + Baseline" where
  "RecordObservation_ptr p category pattern count =
     (case p of
        None \<Rightarrow> Inl NilPointerDereference
      | Some b \<Rightarrow> Inr (RecordObservation b category pattern count))"

definition getSeverity :: "float64 \<Rightarrow> string" where
  "getSeverity zScore =
     (if fgt zScore (Fin 5) then ''CRITICAL''
      else if fgt zScore (Fin 3) then ''HIGH''
      else if fgt zScore (Fin 2) then ''MEDIUM''
      else ''LOW'')"

definition calculateConfidence :: "float64 \<Rightarrow> float64" where
  "calculateConfidence zScore =
     (let confidence = fsub (Fin 1) (fdiv (Fin 1) (fadd (Fin 1) (fdiv (fmul zScore zScore) (Fin 2))))
      in if fgt confidence (Fin 1) then Fin 1 else confidence)"

definition getRiskLevel :: "float64 \<Rightarrow> string" where
  "getRiskLevel zScore =
     (if fgt zScore (Fin 5) then ''CRITICAL''
      else if fgt zScore (Fin 3) then ''HIGH''
      else if fgt zScore (Fin 2) then ''MEDIUM''
      else ''LOW'')"

definition DetectAnomaly ::
  "Learner \<Rightarrow> string \<Rightarrow> string \<Rightarrow> string \<Rightarrow> int \<Rightarrow> time \<Rightarrow> Anomaly list" where
  "DetectAnomaly l name category pattern count now =
     (case GetBaseline l name of
        None \<Rightarrow> []
      | Some baseline \<Rightarrow>
          (case Stats baseline (stat_key category pattern) of
             None \<Rightarrow> []
           | Some stat \<Rightarrow>
               (let zScore = fdiv (fsub (float64_of_int count) (Mean stat)) (StdDev stat)
                in if fgt zScore (AnomalyThreshold baseline)
                      \<or> flt zScore (fneg (AnomalyThreshold baseline))
                   then [\<lparr>a_Type = ''Behavioral Anomaly'',
                          Description = ''Observed behavior deviates from baseline'',
                          Severity = getSeverity zScore,
                          Evidence = pattern,
                          Confidence = calculateConfidence zScore,
                          Timestamp = now,
                          RiskLevel = getRiskLevel zScore\<rparr>]
                   else [])))"

definition UpdateBaseline :: "Baseline \<Rightarrow> string \<Rightarrow> string \<Rightarrow> float64 \<Rightarrow> Baseline" where
  "UpdateBaseline b category pattern count =
     (let key = stat_key category pattern
      in if Stats b key = None
         then b\<lparr>Stats := (Stats b)(key \<mapsto>
                  \<lparr>Mean = count, StdDev = Fin 0, Min_s = count, Max_s = count, SampleCount = 0\<rparr>)\<rparr>
         else
           (let stat = read_Stat (Stats b) key;
                stat1 = stat\<lparr>Mean := fdiv (fadd (fmul (Mean stat) (float64_of_int (SampleCount stat))) count)
                                          (float64_of_int (wrap64 (SampleCount stat + 1)))\<rparr>;
                stat2 = stat1\<lparr>Max_s := go_max (Max_s stat1) count\<rparr>;
                stat3 = stat2\<lparr>Min_s := go_min (Min_s stat2) count\<rparr>
            in b\<lparr>Stats := (Stats b)(key \<mapsto> stat3)\<rparr>))"

definition IsNormal :: "float64 \<Rightarrow> float64 \<Rightarrow> float64 \<Rightarrow> float64 \<Rightarrow> bool" where
  "IsNormal count mean stddev threshold =
     (if feq stddev (Fin 0) then feq count mean
      else (let zScore = fdiv (fsub count mean) stddev
            in fle zScore threshold \<and> fge zScore (fneg threshold)))"

definition CalculateZScore :: "float64 \<Rightarrow> float64 \<Rightarrow> float64 \<Rightarrow> float64" where
  "CalculateZScore v mean stddev =
     (if feq stddev (Fin 0) then Fin 0 else fdiv (fsub v mean) stddev)"

text \<open>
  Command \<open>runtimebase\<close>, function \<open>detectAnomalies\<close>: the learner it has built when it
  calls \<open>DetectAnomaly\<close>. The three calls of \<open>RecordObservation\<close> go through the pointer
  that \<open>CreateBaseline\<close> returned, which is the one in the learner's map.
\<close>

definition detectAnomalies_learner :: "string \<Rightarrow> time \<Rightarrow> time \<Rightarrow> Learner" where
  "detectAnomalies_learner name now1 now2 =
     (let (baseline, learner) = CreateBaseline NewLearner name now1 now2;
          b1 = RecordObservation baseline ''syscall'' ''open'' 100;
          b2 = RecordObservation b1 ''syscall'' ''read'' 500;
          b3 = RecordObservation b2 ''file'' ''write'' 200
      in learner\<lparr>baselines := (baselines learner)(name \<mapsto> b3)\<rparr>)"

section \<open>Package detect\<close>

record Pattern =
  p_Name :: string
  p_Regex :: string
  p_Category :: string
  p_Severity :: string
  p_Description :: string

text \<open>The payload \<open>Data\<close> of an event is a loosely typed map that no function reads.\<close>

record 'd SystemEvent =
  e_Type :: string
  e_Timestamp :: time
  Data :: 'd
  ProcessName :: string
  PID :: int

record AnomalyResult =
  r_Pattern :: string
  r_Severity :: string
  r_Confidence :: float64
  r_Description :: string
  Recommendation :: string

record Detector =
  patterns :: "Pattern list"

text \<open>The backslash and the two quotes of the regular expressions, by their codes.\<close>

definition bsl :: string where
  "bsl = [CHR 0x5C]"

definition quotes :: string where
  "quotes = [CHR 0x22, CHR 0x27]"

definition NewDetector :: Detector where
  "NewDetector = \<lparr>patterns =
     [\<lparr>p_Name = ''Excessive File Access'',
       p_Regex = ''(?i)'' @ bsl @ ''b(open|read|write|close)'' @ bsl @ ''s*'' @ bsl @ ''(''
                  @ bsl @ ''s*['' @ quotes @ '']'',
       p_Category = ''file'',
       p_Severity = ''MEDIUM'',
       p_Description = ''High frequency file access detected''\<rparr>,
      \<lparr>p_Name = ''Network Connection Spike'',
       p_Regex = ''(?i)'' @ bsl @ ''b(connect|socket|listen|accept)'' @ bsl @ ''s*'' @ bsl @ ''( '',
       p_Category = ''network'',
       p_Severity = ''HIGH'',
       p_Description = ''Abnormal network connection activity''\<rparr>,
      \<lparr>p_Name = ''Process Fork Bomb'',
       p_Regex = ''(?i)'' @ bsl @ ''b(fork|spawn|exec)'' @ bsl @ ''s*'' @ bsl @ ''( '',
       p_Category = ''process'',
       p_Severity = ''CRITICAL'',
       p_Description = ''Excessive process creation detected''\<rparr>,
      \<lparr>p_Name = ''System Call Spike'',
       p_Regex = ''(?i)'' @ bsl @ ''b(syscall)'' @ bsl @ ''b'',
       p_Category = ''syscall'',
       p_Severity = ''MEDIUM'',
       p_Description = ''High system call frequency''\<rparr>]\<rparr>"

text \<open>A \<open>map[string]int\<close> that is only read and incremented; a missing key reads as 0.\<close>

definition read_count :: "(string \<rightharpoonup> int) \<Rightarrow> string \<Rightarrow> int" where
  "read_count m key = (case m key of None \<Rightarrow> 0 | Some c \<Rightarrow> c)"

text \<open>The first loop of \<open>Detect\<close>: \<open>categoryCounts[event.Type]++\<close> for every event.\<close>

fun count_categories :: "(string \<rightharpoonup> int) \<Rightarrow> 'd SystemEvent list \<Rightarrow> (string \<rightharpoonup> int)" where
  "count_categories categoryCounts [] = categoryCounts"
| "count_categories categoryCounts (event # events) =
     count_categories
       (categoryCounts(e_Type event \<mapsto> read_count categoryCounts (e_Type event) + 1)) events"

text \<open>The second loop of \<open>Detect\<close>, over the detector's patterns.\<close>

fun check_patterns ::
  "(string \<rightharpoonup> int) \<Rightarrow> Pattern list \<Rightarrow> AnomalyResult list \<Rightarrow> AnomalyResult list" where
  "check_patterns categoryCounts [] results = results"
| "check_patterns categoryCounts (pattern # ps) results =
     (let count = read_count categoryCounts (p_Category pattern)
      in if 100 < count
         then check_patterns categoryCounts ps
                (results @ [\<lparr>r_Pattern = p_Name pattern,
                              r_Severity = p_Severity pattern,
                              r_Confidence = fdiv (float64_of_int count) (Fin 200),
                              r_Description = p_Description pattern,
                              Recommendation = ''Review and investigate this activity''\<rparr>])
         else check_patterns categoryCounts ps results)"

definition Detect :: "Detector \<Rightarrow> 'd SystemEvent list \<Rightarrow> AnomalyResult list" where
  "Detect d events = check_patterns (count_categories Map.empty events) (patterns d) []"

text \<open>
  A \<open>map[string]int\<close> argument is the list of its entries, in the order in which a
  \<open>range\<close> visits them; the keys of a Go map are distinct. \<open>baseline[key]\<close> with
  \<open>exists\<close> is \<open>map_of\<close>.
\<close>

type_synonym count_map = "(string \<times> int) list"

text \<open>
  The loop \<open>totalBaseline += float64(count)\<close>. The variable is a \<open>float64\<close> that holds an
  integer at every step (it starts at 0, and the double nearest to a sum of two integers
  is an integer), so it is kept as that integer. Both the conversion of \<open>count\<close> and the
  sum are rounded to the nearest double.
\<close>

fun sum_baseline :: "int \<Rightarrow> count_map \<Rightarrow> int" where
  "sum_baseline totalBaseline [] = totalBaseline"
| "sum_baseline totalBaseline ((key, count) # rest) =
     sum_baseline (nearest_double (totalBaseline + nearest_double count)) rest"


text \<open>The inner loop of the three scans: how often \<open>item\<close> stands in the batch.\<close>

fun count_occurrences :: "string \<Rightarrow> string list \<Rightarrow> int \<Rightarrow> int" where
  "count_occurrences item [] count = count"
| "count_occurrences item (s # rest) count =
     count_occurrences item rest (if s = item then count + 1 else count)"

text \<open>
  The outer loops. The first argument is the whole batch, the second what is left of it.
  The product \<open>expected*3\<close> is a product of Go ints and wraps.
\<close>

fun syscall_scan :: "string list \<Rightarrow> string list \<Rightarrow> count_map \<Rightarrow> string list \<Rightarrow> string list" where
  "syscall_scan syscalls [] baseline anomalies = anomalies"
| "syscall_scan syscalls (syscall # rest) baseline anomalies =
     (let count = count_occurrences syscall syscalls 0
      in case map_of baseline syscall of
           Some expected \<Rightarrow>
             if wrap64 (expected * 3) < count
             then syscall_scan syscalls rest baseline (anomalies @ [syscall])
             else syscall_scan syscalls rest baseline anomalies
         | None \<Rightarrow> syscall_scan syscalls rest baseline anomalies)"

definition DetectSystemCallAnomaly :: "string list \<Rightarrow> count_map \<Rightarrow> string list" where
  "DetectSystemCallAnomaly syscalls baseline = syscall_scan syscalls syscalls baseline []"

fun file_scan ::
  "string list \<Rightarrow> string list \<Rightarrow> count_map \<Rightarrow> string set \<Rightarrow> string list \<Rightarrow> string list" where
  "file_scan files [] baseline seen anomalies = anomalies"
| "file_scan files (file # rest) baseline seen anomalies =
     (if file \<in> seen then file_scan files rest baseline seen anomalies
      else
        (let seen1 = insert file seen;
             count = count_occurrences file files 0
         in case map_of baseline file of
              Some expected \<Rightarrow>
                if wrap64 (expected * 5) < count
                then file_scan files rest baseline seen1 (anomalies @ [file])
                else file_scan files rest baseline seen1 anomalies
            | None \<Rightarrow> file_scan files rest baseline seen1 anomalies))"

definition DetectFileAccessAnomaly :: "string list \<Rightarrow> count_map \<Rightarrow> string list" where
  "DetectFileAccessAnomaly files baseline = file_scan files files baseline {} []"

fun network_scan ::
  "string list \<Rightarrow> string list \<Rightarrow> count_map \<Rightarrow> string set \<Rightarrow> string list \<Rightarrow> string list" where
  "network_scan connections [] baseline seen anomalies = anomalies"
| "network_scan connections (conn # rest) baseline seen anomalies =
     (if conn \<in> seen then network_scan connections rest baseline seen anomalies
      else
        (let seen1 = insert conn seen;
             count = count_occurrences conn connections 0
         in case map_of baseline conn of
              Some expected \<Rightarrow>
                if wrap64 (expected * 3) < count
                then network_scan connections rest baseline seen1 (anomalies @ [conn])
                else network_scan connections rest baseline seen1 anomalies
            | None \<Rightarrow> network_scan connections rest baseline seen1 anomalies))"

definition DetectNetworkAnomaly :: "string list \<Rightarrow> count_map \<Rightarrow> string list" where
  "DetectNetworkAnomaly connections baseline = network_scan connections connections baseline {} []"

text \<open>How many events of a batch have a given type.\<close>

abbreviation events_of_type :: "'d SystemEvent list \<Rightarrow> string \<Rightarrow> int" where
  "events_of_type events c \<equiv> int (length (filter (\<lambda>event. e_Type event = c) events))"

section \<open>Arithmetic of the model\<close>

lemma wrap64_id: "- (2 ^ 63) \<le> i \<Longrightarrow> i < 2 ^ 63 \<Longrightarrow> wrap64 i = i"
  by (simp add: wrap64_def)

lemma fle_Fin: "fle (Fin x) (Fin y) = (x \<le> y)"
  by (auto simp: fle_def)

lemma confidence_closed_form: "calculateConfidence (Fin z) = Fin (z\<^sup>2 / (z\<^sup>2 + 2))"
proof -
  have pos: "1 + z * z / 2 > 0"
    by (smt (verit) zero_le_square divide_nonneg_pos)
  have eq: "1 - 1 / (1 + z * z / 2) = z\<^sup>2 / (z\<^sup>2 + 2)"
    using pos by (simp add: field_simps power2_eq_square)
  have le1: "z\<^sup>2 / (z\<^sup>2 + 2) \<le> 1"
    by (smt (verit) divide_le_eq_1 zero_le_power2)
  show ?thesis
    using pos eq le1 by (simp add: calculateConfidence_def fsub_def fgt_def Let_def)
qed

lemma confidence_infinite: "calculateConfidence PInf = Fin 1" "calculateConfidence NInf = Fin 1"
  by (simp_all add: calculateConfidence_def fsub_def fgt_def Let_def)

lemma ratio_mono:
  fixes a b :: real
  assumes "\<bar>a\<bar> \<le> \<bar>b\<bar>"
  shows "a\<^sup>2 / (a\<^sup>2 + 2) \<le> b\<^sup>2 / (b\<^sup>2 + 2)"
proof -
  from assms have "a\<^sup>2 \<le> b\<^sup>2" by (simp add: abs_le_square_iff)
  moreover have "0 \<le> a\<^sup>2" "0 \<le> b\<^sup>2" by simp_all
  ultimately show ?thesis
    by (simp add: field_simps add_pos_nonneg)
qed

lemma ratio_bounds:
  fixes z :: real
  shows "0 \<le> z\<^sup>2 / (z\<^sup>2 + 2)" "z\<^sup>2 / (z\<^sup>2 + 2) \<le> 1"
proof -
  show "0 \<le> z\<^sup>2 / (z\<^sup>2 + 2)" by (simp add: add_nonneg_nonneg)
  show "z\<^sup>2 / (z\<^sup>2 + 2) \<le> 1"
    by (smt (verit) divide_le_eq_1 zero_le_power2)
qed


lemma nearest_double_examples:
  "nearest_double (2 ^ 53 + 1) = 2 ^ 53"
  "nearest_double (2 ^ 53 + 2) = 2 ^ 53 + 2"
  "nearest_double (2 ^ 53 + 3) = 2 ^ 53 + 4"
  "nearest_double (- (2 ^ 53) - 1) = - (2 ^ 53)"
  "nearest_double (2 ^ 63 - 1) = 2 ^ 63"
  by code_simp+

text \<open>The total depends on the order in which the map is visited.\<close>

lemma sum_baseline_visit_order:
  "sum_baseline 0 [(''a'', 2 ^ 53), (''b'', 1), (''c'', - (2 ^ 53) - 1)] = 0"
  "sum_baseline 0 [(''a'', 2 ^ 53), (''c'', - (2 ^ 53) - 1), (''b'', 1)] = 1"
  by code_simp+


section \<open>The loops\<close>

lemma count_occurrences_eq: "count_occurrences x xs c = c + int (count_list xs x)"
  by (induction xs arbitrary: c) auto

lemma set_syscall_scan:
  "set (syscall_scan all rest b acc) =
     set acc \<union> {x \<in> set rest. \<exists>e. map_of b x = Some e \<and> wrap64 (e * 3) < int (count_list all x)}"
  by (induction rest arbitrary: acc) (auto simp: count_occurrences_eq Let_def split: option.splits)

lemma set_file_scan:
  "set (file_scan all rest b seen acc) =
     set acc \<union> {x \<in> set rest - seen. \<exists>e. map_of b x = Some e \<and> wrap64 (e * 5) < int (count_list all x)}"
  by (induction rest arbitrary: seen acc) (auto simp: count_occurrences_eq Let_def split: option.splits)

lemma set_network_scan:
  "set (network_scan all rest b seen acc) =
     set acc \<union> {x \<in> set rest - seen. \<exists>e. map_of b x = Some e \<and> wrap64 (e * 3) < int (count_list all x)}"
  by (induction rest arbitrary: seen acc) (auto simp: count_occurrences_eq Let_def split: option.splits)

text \<open>The two scans that keep a \<open>seen\<close> set report an item once; the syscall scan reports
  it once for each of its occurrences.\<close>

lemma distinct_file_scan:
  "distinct acc \<Longrightarrow> set acc \<subseteq> seen \<Longrightarrow> distinct (file_scan all rest b seen acc)"
proof (induction rest arbitrary: seen acc)
  case Nil
  then show ?case by simp
next
  case (Cons a rest)
  have skip: "distinct (file_scan all rest b seen acc)"
    using Cons.IH[of acc seen] Cons.prems by simp
  have keep: "distinct (file_scan all rest b (insert a seen) acc)"
    using Cons.IH[of acc "insert a seen"] Cons.prems by auto
  have flag: "distinct (file_scan all rest b (insert a seen) (acc @ [a]))" if "a \<notin> seen"
    using Cons.IH[of "acc @ [a]" "insert a seen"] Cons.prems that by auto
  show ?case
    using skip keep flag by (auto simp: Let_def split: option.splits)
qed

lemma distinct_network_scan:
  "distinct acc \<Longrightarrow> set acc \<subseteq> seen \<Longrightarrow> distinct (network_scan all rest b seen acc)"
proof (induction rest arbitrary: seen acc)
  case Nil
  then show ?case by simp
next
  case (Cons a rest)
  have skip: "distinct (network_scan all rest b seen acc)"
    using Cons.IH[of acc seen] Cons.prems by simp
  have keep: "distinct (network_scan all rest b (insert a seen) acc)"
    using Cons.IH[of acc "insert a seen"] Cons.prems by auto
  have flag: "distinct (network_scan all rest b (insert a seen) (acc @ [a]))" if "a \<notin> seen"
    using Cons.IH[of "acc @ [a]" "insert a seen"] Cons.prems that by auto
  show ?case
    using skip keep flag by (auto simp: Let_def split: option.splits)
qed

lemma distinct_seen_scans:
  "distinct (DetectFileAccessAnomaly files baseline)"
  "distinct (DetectNetworkAnomaly connections baseline)"
  by (simp_all add: DetectFileAccessAnomaly_def DetectNetworkAnomaly_def
        distinct_file_scan distinct_network_scan)

lemma syscall_scan_repeats:
  "DetectSystemCallAnomaly [''open'', ''open''] [(''open'', 0)] = [''open'', ''open'']"
  by (simp add: DetectSystemCallAnomaly_def wrap64_def)

lemma read_count_empty: "read_count Map.empty c = 0"
  by (simp add: read_count_def)

lemma read_count_count_categories:
  "read_count (count_categories m es) c = read_count m c + events_of_type es c"
  by (induction es arbitrary: m) (auto simp: read_count_def)

lemma check_patterns_eq:
  "check_patterns cc ps acc =
     acc @ map (\<lambda>p. \<lparr>r_Pattern = p_Name p, r_Severity = p_Severity p,
                      r_Confidence = fdiv (float64_of_int (read_count cc (p_Category p))) (Fin 200),
                      r_Description = p_Description p,
                      Recommendation = ''Review and investigate this activity''\<rparr>)
             (filter (\<lambda>p. 100 < read_count cc (p_Category p)) ps)"
  by (induction ps arbitrary: acc) (auto simp: Let_def)

section \<open>The accumulator\<close>

text \<open>
  \<open>RecordObservation\<close> never reads its \<open>count\<close>: the Stat it leaves is the same for every
  observed value, and its mean is the mean it found. \<open>UpdateBaseline\<close> never changes
  \<open>SampleCount\<close>, which it uses as the weight of the old mean.
\<close>

lemma RecordObservation_ignores_count:
  "RecordObservation b category pattern count = RecordObservation b category pattern 0"
  by (simp add: RecordObservation_def)

lemma RecordObservation_Mean:
  "Mean (read_Stat (Stats (RecordObservation b category pattern count)) (stat_key category pattern))
     = Mean (read_Stat (Stats b) (stat_key category pattern))"
  by (simp add: RecordObservation_def read_Stat_def Let_def zero_Stat_def split: option.splits)

lemma UpdateBaseline_SampleCount:
  "SampleCount (read_Stat (Stats (UpdateBaseline b category pattern v)) (stat_key category pattern))
     = SampleCount (read_Stat (Stats b) (stat_key category pattern))"
  by (simp add: UpdateBaseline_def read_Stat_def Let_def zero_Stat_def split: option.splits)

section \<open>Severity bands and the zero standard deviation\<close>

text \<open>
  The two classifiers are the same function. They band the signed z-score: the bands of
  \<open>|z|\<close> hold for \<open>z \<ge> 0\<close>, and every z-score up to 2, so every negative one, is LOW.
  \<open>DetectAnomaly\<close> has no branch for a standard deviation of 0: the z-score is then an
  infinity or NaN.
\<close>

lemma getRiskLevel_eq_getSeverity: "getRiskLevel z = getSeverity z"
  by (simp add: getRiskLevel_def getSeverity_def)

lemma getSeverity_bands_nonneg:
  "0 \<le> z \<Longrightarrow>
   getSeverity (Fin z) =
     (if 5 < \<bar>z\<bar> then ''CRITICAL'' else if 3 < \<bar>z\<bar> then ''HIGH''
      else if 2 < \<bar>z\<bar> then ''MEDIUM'' else ''LOW'')"
  by (simp add: getSeverity_def fgt_def)

lemma getSeverity_low: "z \<le> 2 \<Longrightarrow> getSeverity (Fin z) = ''LOW''"
  by (simp add: getSeverity_def fgt_def)

lemma zscore_zero_stddev:
  "fdiv (fsub (float64_of_int count) (Fin m)) (Fin 0) =
     (if m < of_int count then PInf else if of_int count < m then NInf else NaN)"
  by (simp add: fsub_def float64_of_int_def)

lemma DetectAnomaly_zero_stddev:
  assumes "GetBaseline l name = Some b"
    and "Stats b (stat_key category pattern) = Some st"
    and "StdDev st = Fin 0" and "Mean st = Fin m" and "AnomalyThreshold b = Fin t"
  shows "DetectAnomaly l name category pattern count now \<noteq> [] \<longleftrightarrow> of_int count \<noteq> m"
    and "map Severity (DetectAnomaly l name category pattern count now) =
           (if m < of_int count then [''CRITICAL'']
            else if of_int count < m then [''LOW''] else [])"
  using assms
  by (auto simp: DetectAnomaly_def zscore_zero_stddev fgt_def getSeverity_def Let_def)

text \<open>The two siblings decide the case in a branch of their own, without a division.\<close>

lemma IsNormal_zero_stddev:
  "IsNormal count mean (Fin 0) threshold = feq count mean"
  "CalculateZScore v mean (Fin 0) = Fin 0"
  by (simp_all add: IsNormal_def CalculateZScore_def)

text \<open>
  Every Stat that the package writes has the standard deviation 0, so \<open>DetectAnomaly\<close>
  on a baseline that the package has learnt always divides by 0.
\<close>

lemma RecordObservation_StdDev:
  "StdDev (read_Stat (Stats b) (stat_key category pattern)) = Fin 0 \<Longrightarrow>
   StdDev (read_Stat (Stats (RecordObservation b category pattern count)) (stat_key category pattern))
     = Fin 0"
  by (simp add: RecordObservation_def read_Stat_def Let_def zero_Stat_def split: option.splits)

lemma UpdateBaseline_StdDev:
  "StdDev (read_Stat (Stats b) (stat_key category pattern)) = Fin 0 \<Longrightarrow>
   StdDev (read_Stat (Stats (UpdateBaseline b category pattern v)) (stat_key category pattern))
     = Fin 0"
  by (simp add: UpdateBaseline_def read_Stat_def Let_def zero_Stat_def split: option.splits)

section \<open>The claims\<close>

text \<open>
  C1. After an update of the accumulator the count has grown by one and the mean is the
  arithmetic mean of the values observed so far. The code does not do this. On a new
  baseline, \<open>RecordObservation("syscall", "open", 100)\<close> leaves the mean 0 with count 1;
  \<open>UpdateBaseline\<close> with 10 and then 20 leaves the mean 20, not 15, with count 0.
\<close>

theorem accumulator_at_failing_input:
  "read_Stat (Stats (RecordObservation (fst (CreateBaseline NewLearner ''myapp'' 0 0))
                       ''syscall'' ''open'' 100)) (stat_key ''syscall'' ''open'')
     = \<lparr>Mean = Fin 0, StdDev = Fin 0, Min_s = Fin 0, Max_s = Fin 0, SampleCount = 1\<rparr>
   \<and> read_Stat (Stats (UpdateBaseline
                         (UpdateBaseline (fst (CreateBaseline NewLearner ''myapp'' 0 0))
                            ''syscall'' ''open'' (Fin 10))
                         ''syscall'' ''open'' (Fin 20))) (stat_key ''syscall'' ''open'')
     = \<lparr>Mean = Fin 20, StdDev = Fin 0, Min_s = Fin 10, Max_s = Fin 20, SampleCount = 0\<rparr>"
  by code_simp

text \<open>
  C2. With a standard deviation of 0 an observation is an anomaly if and only if it
  differs from the mean, its severity is MEDIUM, and the case is a branch of its own
  without a division by zero. \<open>IsNormal\<close> and \<open>CalculateZScore\<close> have that branch;
  \<open>DetectAnomaly\<close> has not. In \<open>detectAnomalies\<close> the Stat of \<open>syscall:open\<close> has the
  standard deviation 0 and the mean 0: \<open>DetectAnomaly\<close> divides 500 by 0, the z-score is
  \<open>+Inf\<close>, and the anomaly it reports is CRITICAL with the risk level CRITICAL and the
  confidence 1. After \<open>UpdateBaseline\<close> has learnt 100, the observation 40 has the
  z-score \<open>-Inf\<close> and is reported as LOW.
\<close>

theorem DetectAnomaly_zero_stddev_at_failing_input:
  "StdDev (read_Stat (Stats (the (GetBaseline (detectAnomalies_learner ''myapp'' 0 0) ''myapp'')))
             (stat_key ''syscall'' ''open'')) = Fin 0
   \<and> Mean (read_Stat (Stats (the (GetBaseline (detectAnomalies_learner ''myapp'' 0 0) ''myapp'')))
             (stat_key ''syscall'' ''open'')) = Fin 0
   \<and> fdiv (fsub (float64_of_int 500) (Fin 0)) (Fin 0) = PInf
   \<and> map (\<lambda>a. (Severity a, RiskLevel a, Confidence a))
        (DetectAnomaly (detectAnomalies_learner ''myapp'' 0 0) ''myapp'' ''syscall'' ''open'' 500 1)
       = [(''CRITICAL'', ''CRITICAL'', Fin 1)]
   \<and> map Severity
        (DetectAnomaly
           \<lparr>baselines = [''myapp'' \<mapsto>
              UpdateBaseline (fst (CreateBaseline NewLearner ''myapp'' 0 0))
                ''syscall'' ''open'' (Fin 100)]\<rparr>
           ''myapp'' ''syscall'' ''open'' 40 1)
       = [''LOW'']
   \<and> IsNormal (Fin 100) (Fin 100) (Fin 0) (Fin 3)
   \<and> \<not> IsNormal (Fin 500) (Fin 100) (Fin 0) (Fin 3)
   \<and> CalculateZScore (Fin 500) (Fin 100) (Fin 0) = Fin 0"
  by code_simp

text \<open>
  C3. The severity of a flagged anomaly follows the bands of \<open>|z|\<close>, and the risk level is
  the severity. The code bands the signed z-score: an observation six standard deviations
  below the mean is flagged by \<open>DetectAnomaly\<close> (whose test is two-sided) and gets the
  severity and risk level LOW, where the bands of \<open>|z|\<close> give CRITICAL. So does the
  observation 40 after \<open>UpdateBaseline\<close> has learnt the value 100.
\<close>

theorem severity_of_negative_z:
  "getSeverity (Fin (- 6)) = ''LOW'' \<and> getRiskLevel (Fin (- 6)) = ''LOW''
   \<and> map (\<lambda>a. (Severity a, RiskLevel a, Confidence a))
        (DetectAnomaly
           \<lparr>baselines = [''myapp'' \<mapsto>
              \<lparr>Name = ''myapp'', CreatedAt = 0, UpdatedAt = 0, Patterns = [],
               Stats = [''syscall:open'' \<mapsto>
                  \<lparr>Mean = Fin 100, StdDev = Fin 10, Min_s = Fin 80, Max_s = Fin 120,
                   SampleCount = 50\<rparr>],
               AnomalyThreshold = Fin 3\<rparr>]\<rparr>
           ''myapp'' ''syscall'' ''open'' 40 1)
       = [(''LOW'', ''LOW'', Fin (18 / 19))]
   \<and> map (\<lambda>a. (Severity a, RiskLevel a, Confidence a))
        (DetectAnomaly
           \<lparr>baselines = [''myapp'' \<mapsto>
              UpdateBaseline (fst (CreateBaseline NewLearner ''myapp'' 0 0))
                ''syscall'' ''open'' (Fin 100)]\<rparr>
           ''myapp'' ''syscall'' ''open'' 40 1)
       = [(''LOW'', ''LOW'', Fin 1)]"
  by code_simp

text \<open>
  C4. A baseline that has no Stat under the key of the signature gives no anomaly,
  whatever the observed count is.
\<close>

theorem DetectAnomaly_no_stat:
  "GetBaseline l name = Some b \<Longrightarrow> Stats b (stat_key category pattern) = None \<Longrightarrow>
   DetectAnomaly l name category pattern count now = []"
  by (simp add: DetectAnomaly_def)

theorem DetectAnomaly_no_stat_witness:
  "Stats (fst (CreateBaseline NewLearner ''myapp'' 0 0)) (stat_key ''file'' ''delete'') = None
   \<and> DetectAnomaly (snd (CreateBaseline NewLearner ''myapp'' 0 0)) ''myapp''
        ''file'' ''delete'' 9999 1 = []"
proof -
  have found: "GetBaseline (snd (CreateBaseline NewLearner ''myapp'' 0 0)) ''myapp''
                 = Some (fst (CreateBaseline NewLearner ''myapp'' 0 0))"
    by (simp add: GetBaseline_def CreateBaseline_def Let_def)
  have absent: "Stats (fst (CreateBaseline NewLearner ''myapp'' 0 0)) (stat_key ''file'' ''delete'') = None"
    by (simp add: CreateBaseline_def Let_def)
  from DetectAnomaly_no_stat[OF found absent] absent show ?thesis
    by simp
qed

text \<open>
  C5. For a finite z-score \<open>z\<close> the confidence is \<open>z\<^sup>2 / (z\<^sup>2 + 2)\<close>; it does not decrease
  when \<open>|z|\<close> grows, it lies between 0 and 1, and it is 0 at \<open>z = 0\<close>. For the two infinite
  z-scores, which a zero standard deviation gives, the confidence is 1.
\<close>

theorem calculateConfidence_formula:
  "calculateConfidence (Fin z) = Fin (z\<^sup>2 / (z\<^sup>2 + 2))
   \<and> (\<bar>a\<bar> \<le> \<bar>b\<bar> \<longrightarrow> fle (calculateConfidence (Fin a)) (calculateConfidence (Fin b)))
   \<and> fle (Fin 0) (calculateConfidence (Fin z))
   \<and> fle (calculateConfidence (Fin z)) (Fin 1)
   \<and> calculateConfidence (Fin 0) = Fin 0
   \<and> calculateConfidence PInf = Fin 1
   \<and> calculateConfidence NInf = Fin 1"
proof -
  have mono: "fle (calculateConfidence (Fin a)) (calculateConfidence (Fin b))" if "\<bar>a\<bar> \<le> \<bar>b\<bar>"
    using ratio_mono[OF that] by (simp add: confidence_closed_form fle_Fin)
  have lower: "fle (Fin 0) (calculateConfidence (Fin z))"
    using ratio_bounds(1)[of z] by (simp add: confidence_closed_form fle_Fin)
  have upper: "fle (calculateConfidence (Fin z)) (Fin 1)"
    using ratio_bounds(2)[of z] by (simp add: confidence_closed_form fle_Fin)
  show ?thesis
    using mono lower upper by (simp add: confidence_closed_form confidence_infinite)
qed

theorem calculateConfidence_formula_witness:
  "\<bar>3::real\<bar> \<le> \<bar>- 20\<bar>
   \<and> calculateConfidence (Fin (- 20)) = Fin (200 / 201)
   \<and> fle (calculateConfidence (Fin 3)) (calculateConfidence (Fin (- 20)))"
proof -
  note inst = calculateConfidence_formula[of "- 20" 3 "- 20"]
  have smaller: "\<bar>3::real\<bar> \<le> \<bar>- 20\<bar>"
    by simp
  from inst have "calculateConfidence (Fin (- 20)) = Fin ((- 20)\<^sup>2 / ((- 20)\<^sup>2 + 2))"
    by blast
  then have val: "calculateConfidence (Fin (- 20)) = Fin (200 / 201)"
    by simp
  from inst smaller have "fle (calculateConfidence (Fin 3)) (calculateConfidence (Fin (- 20)))"
    by blast
  with smaller val show ?thesis
    by blast
qed

text \<open>
  C6, as the claim states it, fails. In the learner of \<open>detectAnomalies\<close> the baseline
  \<open>x\<close> has a Stat for \<open>syscall:open\<close>; a second \<open>CreateBaseline\<close> with the name \<open>x\<close>
  returns a baseline as the first did, and the baseline under \<open>x\<close> has lost the Stat.
\<close>

theorem CreateBaseline_twice_counterexample:
  "Stats (the (GetBaseline (detectAnomalies_learner ''x'' 0 0) ''x'')) (stat_key ''syscall'' ''open'')
     \<noteq> None
   \<and> Stats (the (GetBaseline (snd (CreateBaseline (detectAnomalies_learner ''x'' 0 0) ''x'' 1 1)) ''x''))
        (stat_key ''syscall'' ''open'') = None
   \<and> Name (fst (CreateBaseline (detectAnomalies_learner ''x'' 0 0) ''x'' 1 1)) = ''x''"
  by code_simp

text \<open>
  C6, amended. \<open>CreateBaseline\<close> always succeeds. It returns a new baseline with the
  given name, no Stats and the threshold 3, and stores it under the name, in the place of
  a baseline that was there; the baselines of the other names stay.
\<close>

theorem CreateBaseline_replaces:
  "fst (CreateBaseline l name now1 now2)
     = \<lparr>Name = name, CreatedAt = now1, UpdatedAt = now2, Patterns = [],
        Stats = Map.empty, AnomalyThreshold = Fin 3\<rparr>
   \<and> GetBaseline (snd (CreateBaseline l name now1 now2)) name
       = Some (fst (CreateBaseline l name now1 now2))
   \<and> (other \<noteq> name \<longrightarrow>
        GetBaseline (snd (CreateBaseline l name now1 now2)) other = GetBaseline l other)"
  by (simp add: CreateBaseline_def GetBaseline_def Let_def)

theorem CreateBaseline_replaces_witness:
  "''y'' \<noteq> ''x''
   \<and> GetBaseline (snd (CreateBaseline (detectAnomalies_learner ''x'' 0 0) ''x'' 1 1)) ''x''
       = Some \<lparr>Name = ''x'', CreatedAt = 1, UpdatedAt = 1, Patterns = [],
               Stats = Map.empty, AnomalyThreshold = Fin 3\<rparr>
   \<and> GetBaseline (snd (CreateBaseline (detectAnomalies_learner ''x'' 0 0) ''x'' 1 1)) ''y''
       = GetBaseline (detectAnomalies_learner ''x'' 0 0) ''y''"
  using CreateBaseline_replaces[of "detectAnomalies_learner ''x'' 0 0" "''x''" 1 1 "''y''"]
  by simp

text \<open>
  C7, as the claim states it, fails. No baseline is named \<open>y\<close> in a new learner:
  \<open>GetBaseline\<close> gives nil, and \<open>DetectAnomaly\<close> gives the empty list of anomalies, as it
  does for a baseline \<open>y\<close> that exists and has no Stat. The call of \<open>RecordObservation\<close> on
  the nil pointer is a nil dereference.
\<close>

theorem missing_baseline_counterexample:
  "GetBaseline NewLearner ''y'' = None
   \<and> DetectAnomaly NewLearner ''y'' ''syscall'' ''open'' 500 1 = []
   \<and> DetectAnomaly (snd (CreateBaseline NewLearner ''y'' 0 0)) ''y'' ''syscall'' ''open'' 500 1 = []
   \<and> RecordObservation_ptr (GetBaseline NewLearner ''y'') ''syscall'' ''open'' 500
       = Inl NilPointerDereference"
  by (simp add: GetBaseline_def NewLearner_def DetectAnomaly_def CreateBaseline_def
        RecordObservation_ptr_def Let_def)

text \<open>
  C7, amended. For a name under which the learner holds no baseline, \<open>GetBaseline\<close>
  returns nil and \<open>DetectAnomaly\<close> returns no anomaly, for every category, pattern and
  count: a missing baseline is answered as "no anomaly", not as an error.
\<close>

theorem missing_baseline_defaults:
  "baselines l name = None \<Longrightarrow>
   GetBaseline l name = None \<and> DetectAnomaly l name category pattern count now = []"
  by (simp add: DetectAnomaly_def GetBaseline_def)

theorem missing_baseline_defaults_witness:
  "baselines (detectAnomalies_learner ''x'' 0 0) ''y'' = None
   \<and> GetBaseline (detectAnomalies_learner ''x'' 0 0) ''y'' = None
   \<and> DetectAnomaly (detectAnomalies_learner ''x'' 0 0) ''y'' ''file'' ''delete'' 9999 1 = []"
proof -
  have missing: "baselines (detectAnomalies_learner ''x'' 0 0) ''y'' = None"
    by code_simp
  from missing_baseline_defaults[OF missing] missing show ?thesis
    by simp
qed




text \<open>
  C9, as the claim states it, fails. The product of the expected count and the multiplier
  is a product of Go ints: for the expected count \<open>2^62\<close> it wraps to \<open>-2^62\<close>, and a
  syscall that occurs once is flagged, although 1 does not exceed \<open>3 * 2^62\<close>.
\<close>

theorem scan_overflow_counterexample:
  "DetectSystemCallAnomaly [''open''] [(''open'', 4611686018427387904)] = [''open'']
   \<and> \<not> 4611686018427387904 * 3 < int (count_list [''open''] ''open'')"
  by (simp add: DetectSystemCallAnomaly_def wrap64_def)

text \<open>
  C9, amended. Each scan flags an item if and only if the item occurs in the batch, the
  baseline map has an expected count for it, and the number of its occurrences exceeds the
  product of the expected count and the multiplier (3 for syscalls and network
  connections, 5 for files) as the 64-bit int holds it. That is the product itself
  whenever it lies in \<open>[-2^63, 2^63)\<close>. An item without an entry in the baseline map is
  never flagged.
\<close>

theorem scans_flag_iff:
  "(x \<in> set (DetectSystemCallAnomaly xs baseline) \<longleftrightarrow>
      x \<in> set xs \<and> (\<exists>e. map_of baseline x = Some e \<and> wrap64 (e * 3) < int (count_list xs x)))
   \<and> (x \<in> set (DetectFileAccessAnomaly xs baseline) \<longleftrightarrow>
      x \<in> set xs \<and> (\<exists>e. map_of baseline x = Some e \<and> wrap64 (e * 5) < int (count_list xs x)))
   \<and> (x \<in> set (DetectNetworkAnomaly xs baseline) \<longleftrightarrow>
      x \<in> set xs \<and> (\<exists>e. map_of baseline x = Some e \<and> wrap64 (e * 3) < int (count_list xs x)))
   \<and> (- (2 ^ 63) \<le> expected * m \<and> expected * m < 2 ^ 63 \<longrightarrow> wrap64 (expected * m) = expected * m)
   \<and> (map_of baseline x = None \<longrightarrow>
        x \<notin> set (DetectSystemCallAnomaly xs baseline)
        \<and> x \<notin> set (DetectFileAccessAnomaly xs baseline)
        \<and> x \<notin> set (DetectNetworkAnomaly xs baseline))"
  by (simp add: DetectSystemCallAnomaly_def DetectFileAccessAnomaly_def DetectNetworkAnomaly_def
        set_syscall_scan set_file_scan set_network_scan wrap64_id)

theorem scans_flag_iff_witness:
  "''read'' \<in> set (DetectSystemCallAnomaly [''read'', ''read'', ''open'', ''read'', ''read'']
                     [(''read'', 1), (''open'', 1)])
   \<and> ''read'' \<notin> set (DetectFileAccessAnomaly [''read'', ''read'', ''open'', ''read'', ''read'']
                     [(''read'', 1), (''open'', 1)])
   \<and> ''read'' \<in> set (DetectNetworkAnomaly [''read'', ''read'', ''open'', ''read'', ''read'']
                     [(''read'', 1), (''open'', 1)])
   \<and> wrap64 (1 * 3) = 1 * 3"
  using scans_flag_iff[of "''read''" "[''read'', ''read'', ''open'', ''read'', ''read'']"
      "[(''read'', 1), (''open'', 1)]" 1 3]
  by (simp add: wrap64_def)

text \<open>
  C10. \<open>Detect\<close> reports a pattern if and only if more than 100 events of the batch have
  the pattern's category as their type, in the order of the patterns; the confidence of a
  report is that number of events over 200, which is above 1 when the number is above 200.
\<close>

theorem Detect_threshold_and_confidence:
  "Detect d events =
     map (\<lambda>p. \<lparr>r_Pattern = p_Name p, r_Severity = p_Severity p,
                r_Confidence = Fin (real_of_int (events_of_type events (p_Category p)) / 200),
                r_Description = p_Description p,
                Recommendation = ''Review and investigate this activity''\<rparr>)
         (filter (\<lambda>p. 100 < events_of_type events (p_Category p)) (patterns d))
   \<and> (p \<in> set (patterns d) \<and> 200 < events_of_type events (p_Category p) \<longrightarrow>
        (\<exists>r \<in> set (Detect d events). r_Pattern r = p_Name p \<and> fgt (r_Confidence r) (Fin 1)))"
proof -
  let ?report = "\<lambda>p. \<lparr>r_Pattern = p_Name p, r_Severity = p_Severity p,
                r_Confidence = Fin (real_of_int (events_of_type events (p_Category p)) / 200),
                r_Description = p_Description p,
                Recommendation = ''Review and investigate this activity''\<rparr>"
  have eq: "Detect d events =
     map ?report (filter (\<lambda>p. 100 < events_of_type events (p_Category p)) (patterns d))"
    by (simp add: Detect_def check_patterns_eq read_count_count_categories read_count_empty
          float64_of_int_def)
  have above: "\<exists>r \<in> set (Detect d events). r_Pattern r = p_Name p \<and> fgt (r_Confidence r) (Fin 1)"
    if "p \<in> set (patterns d)" and "200 < events_of_type events (p_Category p)"
  proof -
    from that have "?report p \<in> set (Detect d events)"
      unfolding eq by auto
    moreover from that have "fgt (r_Confidence (?report p)) (Fin 1)"
      by (simp add: fgt_def)
    ultimately show ?thesis
      by (intro bexI[of _ "?report p"]) simp_all
  qed
  from eq above show ?thesis
    by blast
qed

theorem Detect_threshold_and_confidence_witness:
  "map (\<lambda>r. (r_Pattern r, r_Severity r, r_Confidence r))
     (Detect NewDetector
        (replicate 201 \<lparr>e_Type = ''file'', e_Timestamp = 0, Data = (), ProcessName = ''cat'', PID = 7\<rparr>))
     = [(''Excessive File Access'', ''MEDIUM'', Fin (201 / 200))]
   \<and> fgt (Fin (201 / 200)) (Fin 1)"
proof -
  let ?events = "replicate 201 \<lparr>e_Type = ''file'', e_Timestamp = 0, Data = (), ProcessName = ''cat'', PID = 7\<rparr>"
  note inst = Detect_threshold_and_confidence[of NewDetector ?events "hd (patterns NewDetector)"]
  from inst have "map (\<lambda>r. (r_Pattern r, r_Severity r, r_Confidence r)) (Detect NewDetector ?events)
     = [(''Excessive File Access'', ''MEDIUM'', Fin (201 / 200))]"
    by (simp add: NewDetector_def)
  then show ?thesis
    by (simp add: fgt_def)
qed

end
